theory Spec2Isabelle
  imports Complex_Main
begin

section \<open>Python values, exceptions and builtins\<close>

text \<open>
  The training driver \<^verbatim>\<open>dm_resnet_train.py\<close> is one function, \<^verbatim>\<open>run\<close>, and the
  command-line block that calls it. Exceptions are values: a computation that can raise
  has type \<open>error + 'a\<close>, with \<open>Inl\<close> the exception. The constructor \<open>Exception\<close> is the
  bare class raised by \<^verbatim>\<open>raise Exception\<close>; the others are the builtin exceptions
  that indexing, \<^verbatim>\<open>len\<close>, \<^verbatim>\<open>min\<close>, \<^verbatim>\<open>int\<close>, a dictionary lookup and the read of an
  unassigned local raise.
\<close>

datatype error =
  Exception | IndexError | TypeError | ValueError | KeyError | UnboundLocalError

definition ebind :: "error + 'a \<Rightarrow> ('a \<Rightarrow> error + 'b) \<Rightarrow> error + 'b" where
  "ebind m f = (case m of Inl e \<Rightarrow> Inl e | Inr v \<Rightarrow> f v)"

text \<open>
  Python floats are modelled as reals (no NaN, no infinities, no rounding). A value
  that is either an int or a float, as \<^verbatim>\<open>val_size\<close> is, carries its tag.
\<close>

datatype pynum = PyInt int | PyFloat real


text \<open>
  A batch from a generator is a nested sequence (tuples, lists, arrays) over numbers.
  \<^verbatim>\<open>len\<close> of a number raises TypeError; indexing a numpy scalar or indexing out of
  range raises IndexError. The indices used by the code are the literals 0 and 1.
\<close>

datatype pyobj = Scalar real | Seq "pyobj list"

fun py_len :: "pyobj \<Rightarrow> error + int" where
  "py_len (Scalar x) = Inl TypeError"
| "py_len (Seq xs) = Inr (int (length xs))"

fun py_getitem :: "pyobj \<Rightarrow> nat \<Rightarrow> error + pyobj" where
  "py_getitem (Scalar x) i = Inl IndexError"
| "py_getitem (Seq xs) i = (if i < length xs then Inr (xs ! i) else Inl IndexError)"

definition list_getitem :: "'a list \<Rightarrow> nat \<Rightarrow> error + 'a" where
  "list_getitem xs i = (if i < length xs then Inr (xs ! i) else Inl IndexError)"

definition dict_getitem :: "('k \<rightharpoonup> 'v) \<Rightarrow> 'k \<Rightarrow> error + 'v" where
  "dict_getitem d k = (case d k of None \<Rightarrow> Inl KeyError | Some v \<Rightarrow> Inr v)"

text \<open>
  \<^verbatim>\<open>min(xs)\<close> raises ValueError on an empty list and otherwise keeps the first of the
  smallest items: a later item replaces the current one only when strictly smaller.
\<close>

definition py_min :: "real list \<Rightarrow> error + real" where
  "py_min xs = (case xs of [] \<Rightarrow> Inl ValueError
     | x # ys \<Rightarrow> Inr (foldl (\<lambda>m y. if y < m then y else m) x ys))"

text \<open>
  \<^verbatim>\<open>np.where(xs == m)\<close>, with \<open>m\<close> a numpy scalar: the comparison is elementwise and
  the result holds, in increasing order, the indices where it is true.
\<close>

definition np_where_eq :: "real list \<Rightarrow> real \<Rightarrow> nat list" where
  "np_where_eq xs m = filter (\<lambda>i. xs ! i = m) [0..<length xs]"

section \<open>Arguments of run\<close>

text \<open>
  The keyword arguments of \<^verbatim>\<open>run\<close>, which are also the destinations of the
  command-line parser. The type of \<^verbatim>\<open>val_size\<close> is a parameter: the parser yields
  a float, \<^verbatim>\<open>run\<close> receives an int or a float.
\<close>

record 'v opts =
  img_extension :: string
  img_size :: "int list"
  img_scale :: int
  multi_view :: bool
  do_featurewise_norm :: bool
  featurewise_mean :: real
  featurewise_std :: real
  batch_size :: int
  samples_per_epoch :: int
  nb_epoch :: int
  balance_classes :: real
  all_neg_skip :: real
  pos_cls_weight :: real
  nb_init_filter :: int
  init_filter_size :: int
  init_conv_stride :: int
  pool_size :: int
  pool_stride :: int
  weight_decay :: real
  alpha :: real
  l1_ratio :: real
  inp_dropout :: real
  hidden_dropout :: real
  init_lr :: real
  val_size :: 'v
  lr_patience :: int
  es_patience :: int
  resume_from :: "string option"
  net :: string
  load_val_ram :: bool
  exam_tsv :: "string option"
  img_tsv :: string
  best_model :: string
  final_model :: string

section \<open>Objects of the collaborating modules\<close>

text \<open>
  The metadata manager, the image generator, the network builders, the multi-GPU helper
  and the training framework are other modules. An object they return is modelled by
  the call that made it, or by the attributes the driver sets on it.
\<close>

datatype meta_man = DMMetaManager "string option" string string string
  \<comment> \<open>exam_tsv, img_tsv, img_folder, img_extension\<close>

record img_gen =
  horizontal_flip :: bool
  vertical_flip :: bool
  featurewise_center :: bool
  featurewise_std_normalization :: bool
  samplewise_center :: bool
  samplewise_std_normalization :: bool
  mean :: "real option"
  std :: "real option"

datatype flow_opts =
    TrainOpts "int \<times> int" int int real real bool int string
    \<comment> \<open>target_size, target_scale, batch_size, balance_classes, all_neg_skip,
        shuffle, seed, class_mode\<close>
  | ValOpts "int \<times> int" int int bool string
    \<comment> \<open>target_size, target_scale, batch_size, validation_mode, class_mode\<close>

datatype ('e, 'i) flow =
    flow_from_exam_list img_gen "'e list" flow_opts
  | flow_from_img_list img_gen "'i list" "int list" flow_opts

datatype builder = ResNetBuilder | MultiViewResNetBuilder

datatype build_method =
    build_resnet_18 | build_resnet_34 | build_resnet_50
  | build_dm_resnet_14 | build_dm_resnet_47rb5 | build_dm_resnet_56rb6
  | build_dm_resnet_65rb7 | build_resnet_101 | build_resnet_152

datatype build_args =
  BuildArgs "int \<times> int \<times> int" int int int int int int real real real real real
  \<comment> \<open>input shape, number of outputs, nb_init_filter, init_filter_size,
      init_conv_stride, pool_size, pool_stride, weight_decay, alpha, l1_ratio,
      inp_dropout, hidden_dropout\<close>

datatype metric = sensitivity | specificity

datatype model =
    load_model string "(string \<times> metric) list"
  | build builder build_method build_args
  | make_parallel model int

datatype optimizer = SGD real real real bool
  \<comment> \<open>lr, momentum, decay, nesterov\<close>

datatype compile_args = CompileArgs optimizer string "metric list"
  \<comment> \<open>optimizer, loss, metrics\<close>

datatype ('e, 'i) val_data = ValSet pyobj | ValGen "('e, 'i) flow"

datatype ('e, 'i) callback =
    ReduceLROnPlateau string real int int
    \<comment> \<open>monitor, factor, patience, verbose\<close>
  | EarlyStopping string int int
    \<comment> \<open>monitor, patience, verbose\<close>
  | DMAucModelCheckpoint string "('e, 'i) val_data" "int option" "int option"
    \<comment> \<open>filepath, test data, batch_size, nb_test_samples\<close>

record ('e, 'i) fit_args =
  generator :: "('e, 'i) flow"
  fit_samples_per_epoch :: int
  fit_nb_epoch :: int
  class_weight :: "int \<rightharpoonup> real"
  validation_data :: "('e, 'i) val_data"
  nb_val_samples :: int
  callbacks :: "('e, 'i) callback list"
  nb_worker :: int
  pickle_safe :: bool
  verbose :: int

type_synonym history = "string \<rightharpoonup> real list"

record summary =
  epoch :: int
  best_val_loss :: real
  best_val_sensitivity :: real
  best_val_specificity :: real

text \<open>
  What a completed run did: the model that was compiled and how, the call of the
  training loop, the printed summary, the path the final model was saved to (if it
  was), and the returned history.
\<close>

record ('e, 'i) outcome =
  compiled :: model
  compile_call :: compile_args
  fit_call :: "('e, 'i) fit_args"
  printed :: summary
  saved :: "string option"
  returned :: history

text \<open>
  Everything the run reads from outside: the process environment, Python's \<^verbatim>\<open>int\<close>
  on a string, the metadata manager's lists, the splits that scikit-learn's
  \<^verbatim>\<open>train_test_split\<close> returns (for one array and for two), the freshly constructed
  image generator, the batch a generator yields, and the history the training loop
  returns. Exams (\<open>'e\<close>) and images (\<open>'i\<close>) are opaque. The calls are taken to return.
\<close>

record ('e, 'i) world =
  environ :: "string \<rightharpoonup> string"
  int_of_str :: "string \<Rightarrow> error + int"
  get_flatten_exam_list :: "meta_man \<Rightarrow> 'e list"
  exam_labs :: "meta_man \<Rightarrow> 'e list \<Rightarrow> int list"
  get_flatten_img_list :: "meta_man \<Rightarrow> 'i list \<times> int list"
  train_test_split1 :: "'e list \<Rightarrow> pynum \<Rightarrow> int \<Rightarrow> int list \<Rightarrow> 'e list \<times> 'e list"
    \<comment> \<open>array, test_size, random_state, stratify\<close>
  train_test_split2 :: "'i list \<Rightarrow> int list \<Rightarrow> pynum \<Rightarrow> int \<Rightarrow> int list
      \<Rightarrow> 'i list \<times> 'i list \<times> int list \<times> int list"
    \<comment> \<open>two arrays, test_size, random_state, stratify\<close>
  DMImageDataGenerator :: "bool \<Rightarrow> bool \<Rightarrow> img_gen"
    \<comment> \<open>horizontal_flip, vertical_flip\<close>
  next_batch :: "('e, 'i) flow \<Rightarrow> pyobj"
  fit_generator :: "model \<Rightarrow> compile_args \<Rightarrow> ('e, 'i) fit_args \<Rightarrow> history"

section \<open>The function run\<close>

text \<open>\<^verbatim>\<open>int(os.getenv(name, default))\<close> with an integer default.\<close>

definition getenv_int :: "('e, 'i) world \<Rightarrow> string \<Rightarrow> int \<Rightarrow> error + int" where
  "getenv_int w name dflt =
     (case environ w name of None \<Rightarrow> Inr dflt | Some s \<Rightarrow> int_of_str w s)"

text \<open>
  Lines 53 to 66: the lists and their split. Only the variables of the branch taken are
  assigned, so the result is tagged by the branch. The second
  component is \<^verbatim>\<open>val_size_\<close>, written \<open>val_size'\<close>.
\<close>

datatype ('e, 'i) split =
    ExamSplit "'e list" "'e list"
    \<comment> \<open>exam_train, exam_val\<close>
  | ImgSplit "'i list" "'i list" "int list" "int list"
    \<comment> \<open>img_train, img_val, lab_train, lab_val\<close>

definition split_data ::
  "('e, 'i) world \<Rightarrow> string \<Rightarrow> (pynum, 'z) opts_scheme \<Rightarrow> int \<Rightarrow> ('e, 'i) split \<times> int" where
  "split_data w img_folder a random_seed =
     (let meta_man = DMMetaManager (exam_tsv a) (img_tsv a) img_folder (img_extension a)
      in if multi_view a then
           (let exam_list = get_flatten_exam_list w meta_man;
                (exam_train, exam_val) =
                  train_test_split1 w exam_list (val_size a) random_seed
                    (exam_labs w meta_man exam_list)
            in (ExamSplit exam_train exam_val, int (length exam_val) * 2))
         else
           (let (img_list, lab_list) = get_flatten_img_list w meta_man;
                (img_train, img_val, lab_train, lab_val) =
                  train_test_split2 w img_list lab_list (val_size a) random_seed lab_list
            in (ImgSplit img_train img_val lab_train lab_val, int (length img_val))))"

text \<open>Lines 69 to 79: the image generator and its normalisation attributes.\<close>

definition create_img_gen :: "('e, 'i) world \<Rightarrow> ('v, 'z) opts_scheme \<Rightarrow> img_gen" where
  "create_img_gen w a =
     (let img_gen = DMImageDataGenerator w True True
      in if do_featurewise_norm a then
           img_gen\<lparr>featurewise_center := True,
                   featurewise_std_normalization := True,
                   mean := Some (featurewise_mean a),
                   std := Some (featurewise_std a)\<rparr>
         else
           img_gen\<lparr>samplewise_center := True,
                   samplewise_std_normalization := True\<rparr>)"

text \<open>
  Lines 81 to 118: the training and validation generators. Reading a variable of the
  branch not taken at the split would raise UnboundLocalError.
\<close>

definition create_flows ::
  "('v, 'z) opts_scheme \<Rightarrow> img_gen \<Rightarrow> ('e, 'i) split \<Rightarrow> int \<Rightarrow> int
     \<Rightarrow> error + (('e, 'i) flow \<times> ('e, 'i) flow)" where
  "create_flows a img_gen sp val_size' random_seed =
     ebind (list_getitem (img_size a) 0) (\<lambda>size0.
     ebind (list_getitem (img_size a) 1) (\<lambda>size1.
     let train_opts = TrainOpts (size0, size1) (img_scale a) (batch_size a)
           (balance_classes a) (all_neg_skip a) True random_seed ''binary'';
         val_opts =
           (if load_val_ram a
            then ValOpts (size0, size1) (img_scale a) val_size' True ''binary''
            else ValOpts (size0, size1) (img_scale a) (batch_size a) True ''binary'')
     in if multi_view a then
          (case sp of
             ExamSplit exam_train exam_val \<Rightarrow>
               Inr (flow_from_exam_list img_gen exam_train train_opts,
                    flow_from_exam_list img_gen exam_val val_opts)
           | ImgSplit _ _ _ _ \<Rightarrow> Inl UnboundLocalError)
        else
          (case sp of
             ImgSplit img_train img_val lab_train lab_val \<Rightarrow>
               Inr (flow_from_img_list img_gen img_train lab_train train_opts,
                    flow_from_img_list img_gen img_val lab_val val_opts)
           | ExamSplit _ _ \<Rightarrow> Inl UnboundLocalError)))"

text \<open>
  Lines 121 to 127: the validation set loaded into memory and the check of its size.
  \<open>len_differs x n\<close> is \<^verbatim>\<open>len(x) != n\<close>. The \<^verbatim>\<open>and\<close> and the \<^verbatim>\<open>or\<close> evaluate
  their right operand only when the left one does not decide; the \<^verbatim>\<open>elif\<close> is reached
  whenever the first condition is false. The result is \<^verbatim>\<open>validation_set\<close> if assigned.
\<close>

definition len_differs :: "error + pyobj \<Rightarrow> int \<Rightarrow> error + bool" where
  "len_differs x n = ebind x (\<lambda>v. ebind (py_len v) (\<lambda>l. Inr (l \<noteq> n)))"

definition load_val_set ::
  "('e, 'i) world \<Rightarrow> ('v, 'z) opts_scheme \<Rightarrow> ('e, 'i) flow \<Rightarrow> int \<Rightarrow> error + pyobj option" where
  "load_val_set w a val_generator val_size' =
     (if load_val_ram a then
        (let validation_set = next_batch w val_generator
         in ebind (if \<not> multi_view a
                   then len_differs (py_getitem validation_set 0) val_size'
                   else Inr False) (\<lambda>c1.
            if c1 then Inl Exception
            else
              ebind (len_differs
                       (ebind (py_getitem validation_set 0) (\<lambda>x. py_getitem x 0))
                       val_size') (\<lambda>c2.
              ebind (if c2 then Inr True
                     else len_differs
                       (ebind (py_getitem validation_set 0) (\<lambda>x. py_getitem x 1))
                       val_size') (\<lambda>c3.
              if c3 then Inl Exception else Inr (Some validation_set)))))
      else Inr None)"

text \<open>
  Lines 130 to 187: the model. A local variable that may not have been assigned is an
  option, and reading it while unassigned raises UnboundLocalError. The \<^verbatim>\<open>elif\<close> chain
  over \<^verbatim>\<open>net\<close> selects the builder's method; each branch passes the same arguments,
  and the chain has no \<^verbatim>\<open>else\<close>.
\<close>

definition local_var :: "'a option \<Rightarrow> error + 'a" where
  "local_var v = (case v of None \<Rightarrow> Inl UnboundLocalError | Some x \<Rightarrow> Inr x)"

definition net_method :: "string \<Rightarrow> build_method option" where
  "net_method n =
     (if n = ''resnet18'' then Some build_resnet_18
      else if n = ''resnet34'' then Some build_resnet_34
      else if n = ''resnet50'' then Some build_resnet_50
      else if n = ''dmresnet14'' then Some build_dm_resnet_14
      else if n = ''dmresnet47rb5'' then Some build_dm_resnet_47rb5
      else if n = ''dmresnet56rb6'' then Some build_dm_resnet_56rb6
      else if n = ''dmresnet65rb7'' then Some build_dm_resnet_65rb7
      else if n = ''resnet101'' then Some build_resnet_101
      else if n = ''resnet152'' then Some build_resnet_152
      else None)"

definition create_model :: "('v, 'z) opts_scheme \<Rightarrow> error + model option" where
  "create_model a =
     (case resume_from a of
        Some path \<Rightarrow>
          Inr (Some (load_model path
                 [(''sensitivity'', sensitivity), (''specificity'', specificity)]))
      | None \<Rightarrow>
          (let builder = (if multi_view a then MultiViewResNetBuilder else ResNetBuilder)
           in case net_method (net a) of
                None \<Rightarrow> Inr None
              | Some method \<Rightarrow>
                  ebind (list_getitem (img_size a) 0) (\<lambda>size0.
                  ebind (list_getitem (img_size a) 1) (\<lambda>size1.
                  Inr (Some (build builder method
                    (BuildArgs (1, size0, size1) 1 (nb_init_filter a) (init_filter_size a)
                       (init_conv_stride a) (pool_size a) (pool_stride a) (weight_decay a)
                       (alpha a) (l1_ratio a) (inp_dropout a) (hidden_dropout a))))))))"

text \<open>Lines 189 and 190: replication across accelerators.\<close>

definition replicate_model :: "int \<Rightarrow> model option \<Rightarrow> error + model option" where
  "replicate_model gpu_count model =
     (if gpu_count > 1
      then ebind (local_var model) (\<lambda>m. Inr (Some (make_parallel m gpu_count)))
      else Inr model)"

text \<open>
  Lines 221 to 229: the training report. The record holds the four values printed, in
  the order of the \<^verbatim>\<open>print\<close> statements.
\<close>

definition training_report :: "history \<Rightarrow> error + summary" where
  "training_report h =
     ebind (dict_getitem h ''val_loss'') (\<lambda>val_loss.
     ebind (py_min val_loss) (\<lambda>m.
     let min_loss_locs = np_where_eq val_loss m
     in ebind (list_getitem min_loss_locs 0) (\<lambda>loc.
        ebind (list_getitem val_loss loc) (\<lambda>loss.
        ebind (dict_getitem h ''val_sensitivity'') (\<lambda>val_sensitivity.
        ebind (list_getitem val_sensitivity loc) (\<lambda>sens.
        ebind (dict_getitem h ''val_specificity'') (\<lambda>val_specificity.
        ebind (list_getitem val_specificity loc) (\<lambda>spec.
        Inr \<lparr>epoch = int loc + 1, best_val_loss = loss,
             best_val_sensitivity = sens, best_val_specificity = spec\<rparr>))))))))"

text \<open>
  Lines 189 to 218, up to the call of the training loop: replication, compilation, the
  callbacks and the arguments of \<^verbatim>\<open>fit_generator\<close>. The result is the model that was
  compiled, the arguments of \<^verbatim>\<open>compile\<close> and those of \<^verbatim>\<open>fit_generator\<close>.
\<close>

definition training_call ::
  "('v, 'z) opts_scheme \<Rightarrow> int \<Rightarrow> int \<Rightarrow> int
     \<Rightarrow> ('e, 'i) flow \<Rightarrow> ('e, 'i) flow \<Rightarrow> pyobj option \<Rightarrow> model option
     \<Rightarrow> error + (model \<times> compile_args \<times> ('e, 'i) fit_args)" where
  "training_call a nb_worker' gpu_count val_size' train_generator val_generator
       validation_set model0 =
     ebind (replicate_model gpu_count model0) (\<lambda>model1.
     ebind (local_var model1) (\<lambda>model.
     let sgd = SGD (init_lr a) 0.9 0.0 True;
         compile = CompileArgs sgd ''binary_crossentropy'' [sensitivity, specificity];
         reduce_lr = ReduceLROnPlateau ''val_loss'' 0.1 (lr_patience a) 1;
         early_stopping = EarlyStopping ''val_loss'' (es_patience a) 1
     in ebind (if load_val_ram a
               then ebind (local_var validation_set) (\<lambda>vs.
                      Inr (DMAucModelCheckpoint (best_model a) (ValSet vs)
                             (Some (batch_size a)) None))
               else Inr (DMAucModelCheckpoint (best_model a) (ValGen val_generator)
                           None (Some val_size'))) (\<lambda>auc_checkpointer.
        ebind (if load_val_ram a
               then ebind (local_var validation_set) (\<lambda>vs. Inr (ValSet vs))
               else Inr (ValGen val_generator)) (\<lambda>val_data.
        Inr (model, compile,
             \<lparr>generator = train_generator,
              fit_samples_per_epoch = samples_per_epoch a,
              fit_nb_epoch = nb_epoch a,
              class_weight = [0 \<mapsto> 1.0, 1 \<mapsto> pos_cls_weight a],
              validation_data = val_data,
              nb_val_samples = val_size',
              callbacks = [reduce_lr, early_stopping, auc_checkpointer],
              nb_worker = nb_worker',
              pickle_safe = True,
              verbose = 2\<rparr>)))))"

text \<open>
  Lines 207 to 234, from the call on: the training loop, the report, the save of the
  final model and the return.
\<close>

definition fit_and_report ::
  "('e, 'i) world \<Rightarrow> ('v, 'z) opts_scheme \<Rightarrow> model \<times> compile_args \<times> ('e, 'i) fit_args
     \<Rightarrow> error + ('e, 'i) outcome" where
  "fit_and_report w a = (\<lambda>(model, compile, fit).
     let hist = fit_generator w model compile fit
     in ebind (training_report hist) (\<lambda>report.
        Inr \<lparr>compiled = model, compile_call = compile, fit_call = fit,
             printed = report,
             saved = (if final_model a \<noteq> ''NOSAVE'' then Some (final_model a) else None),
             returned = hist\<rparr>))"

text \<open>
  The locals at line 128, once the data, the generators and the validation set are
  there: \<^verbatim>\<open>nb_worker\<close>, \<^verbatim>\<open>gpu_count\<close>, \<^verbatim>\<open>val_size_\<close>, \<^verbatim>\<open>train_generator\<close>,
  \<^verbatim>\<open>val_generator\<close> and \<^verbatim>\<open>validation_set\<close>.
\<close>

type_synonym ('e, 'i) locals =
  "int \<times> int \<times> int \<times> ('e, 'i) flow \<times> ('e, 'i) flow \<times> pyobj option"

definition prepare ::
  "('e, 'i) world \<Rightarrow> string \<Rightarrow> (pynum, 'z) opts_scheme \<Rightarrow> error + ('e, 'i) locals" where
  "prepare w img_folder a =
     ebind (getenv_int w ''RANDOM_SEED'' 12345) (\<lambda>random_seed.
     ebind (getenv_int w ''NUM_CPU_CORES'' 4) (\<lambda>nb_worker'.
     ebind (getenv_int w ''NUM_GPU_DEVICES'' 1) (\<lambda>gpu_count.
     let (sp, val_size') = split_data w img_folder a random_seed;
         img_gen = create_img_gen w a
     in ebind (create_flows a img_gen sp val_size' random_seed)
          (\<lambda>(train_generator, val_generator).
        ebind (load_val_set w a val_generator val_size') (\<lambda>validation_set.
        Inr (nb_worker', gpu_count, val_size', train_generator, val_generator,
             validation_set))))))"

text \<open>The run up to the call of the training loop (lines 46 to 218), and the run.\<close>

definition run_to_fit ::
  "('e, 'i) world \<Rightarrow> string \<Rightarrow> (pynum, 'z) opts_scheme
     \<Rightarrow> error + (model \<times> compile_args \<times> ('e, 'i) fit_args)" where
  "run_to_fit w img_folder a =
     ebind (prepare w img_folder a)
       (\<lambda>(nb_worker', gpu_count, val_size', train_generator, val_generator, validation_set).
     ebind (create_model a) (\<lambda>model.
     training_call a nb_worker' gpu_count val_size' train_generator val_generator
       validation_set model))"

definition run ::
  "('e, 'i) world \<Rightarrow> string \<Rightarrow> (pynum, 'z) opts_scheme \<Rightarrow> error + ('e, 'i) outcome" where
  "run w img_folder a = ebind (run_to_fit w img_folder a) (fit_and_report w a)"

section \<open>The command line\<close>

text \<open>
  Lines 293 to 331. The parsed namespace has the destinations of the options, with
  \<^verbatim>\<open>val_size\<close> a float, and the positional \<^verbatim>\<open>img_folder\<close>.
\<close>

record namespace = "real opts" +
  img_folder :: string



section \<open>Notions used in the statements\<close>

text \<open>The generator object on which a flow method was called.\<close>

fun flow_img_gen :: "('e, 'i) flow \<Rightarrow> img_gen" where
  "flow_img_gen (flow_from_exam_list g _ _) = g"
| "flow_img_gen (flow_from_img_list g _ _ _) = g"

text \<open>The nine architecture names, as the specification lists them.\<close>

definition recognized_nets :: "string list" where
  "recognized_nets =
     [''resnet18'', ''resnet34'', ''resnet50'', ''dmresnet14'', ''dmresnet47rb5'',
      ''dmresnet56rb6'', ''dmresnet65rb7'', ''resnet101'', ''resnet152'']"

section \<open>Concrete inputs\<close>

text \<open>
  The default values of the keyword arguments of \<^verbatim>\<open>run\<close> (lines 25 to 38) and of
  the command-line options (lines 240 to 291), with an image folder.
\<close>

definition default_opts :: "pynum opts" where
  "default_opts =
     \<lparr>img_extension = ''dcm'', img_size = [288, 224], img_scale = 4095,
      multi_view = False, do_featurewise_norm = True,
      featurewise_mean = 398.5, featurewise_std = 627.8,
      batch_size = 16, samples_per_epoch = 160, nb_epoch = 20,
      balance_classes = 0, all_neg_skip = 0, pos_cls_weight = 1,
      nb_init_filter = 64, init_filter_size = 7, init_conv_stride = 2,
      pool_size = 3, pool_stride = 2, weight_decay = 0.0001, alpha = 1,
      l1_ratio = 0.5, inp_dropout = 0, hidden_dropout = 0, init_lr = 0.01,
      val_size = PyFloat 0.2, lr_patience = 5, es_patience = 10,
      resume_from = None, net = ''resnet50'', load_val_ram = False,
      exam_tsv = Some ''./metadata/exams_metadata.tsv'',
      img_tsv = ''./metadata/images_crosswalk.tsv'',
      best_model = ''./modelState/dm_resnet_best_model.h5'',
      final_model = ''NOSAVE''\<rparr>"


text \<open>
  A small world: five exams, ten images, splits that put the last two exams and the
  last two images in the validation set, a generator whose attributes start at False
  and None, a validation batch of two images of shape (1, 2, 2) with their two labels,
  a history of four epochs whose least validation loss is reached at the second and
  again at the fourth epoch, and two GPU devices in the environment.
\<close>

definition image_1x2x2 :: pyobj where
  "image_1x2x2 = Seq [Seq [Seq [Scalar 0, Scalar 0], Seq [Scalar 0, Scalar 0]]]"

definition demo_batch :: pyobj where
  "demo_batch = Seq [Seq [image_1x2x2, image_1x2x2], Seq [Scalar 0, Scalar 1]]"

definition demo_history :: history where
  "demo_history =
     [''val_loss'' \<mapsto> [0.7, 0.5, 0.6, 0.5],
      ''val_sensitivity'' \<mapsto> [0.1, 0.2, 0.3, 0.4],
      ''val_specificity'' \<mapsto> [0.9, 0.8, 0.7, 0.6]]"

definition demo_world :: "(nat, nat) world" where
  "demo_world =
     \<lparr>environ = [''NUM_GPU_DEVICES'' \<mapsto> ''2''],
      int_of_str = (\<lambda>s. if s = ''2'' then Inr 2 else Inl ValueError),
      get_flatten_exam_list = (\<lambda>_. [0, 1, 2, 3, 4]),
      exam_labs = (\<lambda>_ _. [0, 1, 0, 1, 0]),
      get_flatten_img_list =
        (\<lambda>_. ([0, 1, 2, 3, 4, 5, 6, 7, 8, 9], [0, 1, 0, 1, 0, 1, 0, 1, 0, 1])),
      train_test_split1 = (\<lambda>xs _ _ _. (take 3 xs, drop 3 xs)),
      train_test_split2 = (\<lambda>xs ls _ _ _. (take 8 xs, drop 8 xs, take 8 ls, drop 8 ls)),
      DMImageDataGenerator = (\<lambda>h v.
        \<lparr>horizontal_flip = h, vertical_flip = v, featurewise_center = False,
         featurewise_std_normalization = False, samplewise_center = False,
         samplewise_std_normalization = False, mean = None, std = None\<rparr>),
      next_batch = (\<lambda>_. demo_batch),
      fit_generator = (\<lambda>_ _ _. demo_history)\<rparr>"

section \<open>Lemmas on the error monad, the report and the phases of run\<close>

lemma ebind_Inr_iff: "ebind m f = Inr y \<longleftrightarrow> (\<exists>x. m = Inr x \<and> f x = Inr y)"
  by (cases m) (simp_all add: ebind_def)

lemma ebind_InrE:
  assumes "ebind m f = Inr y"
  obtains x where "m = Inr x" and "f x = Inr y"
  using assms by (auto simp: ebind_Inr_iff)

lemma ebind_Inr [simp]: "ebind (Inr x) f = f x"
  by (simp add: ebind_def)

lemma ebind_Inl [simp]: "ebind (Inl e) f = Inl e"
  by (simp add: ebind_def)





lemma training_call_Inr:
  assumes "training_call a nw g vs tg vg vset m0 = Inr (model, compile, fit)"
  shows "\<exists>b vd. m0 = Some b \<and>
     model = (if 1 < g then make_parallel b g else b) \<and>
     nb_val_samples fit = vs \<and>
     nb_worker fit = nw \<and>
     generator fit = tg \<and>
     class_weight fit = [0 \<mapsto> 1, 1 \<mapsto> pos_cls_weight a] \<and>
     validation_data fit = vd \<and>
     (if load_val_ram a then \<exists>batch. vd = ValSet batch else vd = ValGen vg) \<and>
     callbacks fit =
       [ReduceLROnPlateau ''val_loss'' 0.1 (lr_patience a) 1,
        EarlyStopping ''val_loss'' (es_patience a) 1,
        DMAucModelCheckpoint (best_model a) vd
          (if load_val_ram a then Some (batch_size a) else None)
          (if load_val_ram a then None else Some vs)]"
  using assms unfolding training_call_def Let_def replicate_model_def
  by (elim ebind_InrE)
     (cases m0; auto simp: local_var_def split: if_splits elim!: ebind_InrE)

lemma run_to_fit_Inr:
  assumes "run_to_fit w f a = Inr (model, compile, fit)"
  shows "\<exists>seed nw g sp vs tg vg vset m0.
     getenv_int w ''RANDOM_SEED'' 12345 = Inr seed \<and>
     getenv_int w ''NUM_CPU_CORES'' 4 = Inr nw \<and>
     getenv_int w ''NUM_GPU_DEVICES'' 1 = Inr g \<and>
     split_data w f a seed = (sp, vs) \<and>
     create_flows a (create_img_gen w a) sp vs seed = Inr (tg, vg) \<and>
     load_val_set w a vg vs = Inr vset \<and>
     create_model a = Inr m0 \<and>
     training_call a nw g vs tg vg vset m0 = Inr (model, compile, fit)"
  using assms unfolding run_to_fit_def prepare_def Let_def
  by (elim ebind_InrE) (auto split: prod.splits elim!: ebind_InrE)

lemma run_Inr:
  assumes "run w f a = Inr out"
  shows "run_to_fit w f a = Inr (compiled out, compile_call out, fit_call out) \<and>
     returned out = fit_generator w (compiled out) (compile_call out) (fit_call out) \<and>
     training_report (returned out) = Inr (printed out) \<and>
     saved out = (if final_model a \<noteq> ''NOSAVE'' then Some (final_model a) else None)"
  using assms unfolding run_def fit_and_report_def Let_def
  by (elim ebind_InrE) (auto split: prod.splits elim!: ebind_InrE)

lemma create_flows_gen:
  assumes "create_flows a g sp vs seed = Inr (tg, vg)"
  shows "flow_img_gen tg = g \<and> flow_img_gen vg = g"
  using assms unfolding create_flows_def Let_def
  by (elim ebind_InrE) (auto split: if_splits split.splits)

lemma net_method_Some_iff: "(\<exists>m. net_method n = Some m) \<longleftrightarrow> n \<in> set recognized_nets"
  by (simp add: net_method_def recognized_nets_def)


text \<open>
  The check of the preloaded batch, by mode. In multi-view mode, with the two arrays at
  positions 0 and 1 of the first component of the batch, the check raises exactly when one
  of them has another length than \<^verbatim>\<open>val_size_\<close>. In single-view mode a batch of
  another length raises; a batch of the right length goes on to the \<^verbatim>\<open>elif\<close> and
  is checked again as if it were a pair of arrays, so that a batch of images of shape
  (1, height, width) never passes.
\<close>

lemma load_val_set_multi_view:
  assumes "load_val_ram a" and "multi_view a"
    and "next_batch w vg = Seq (Seq (Seq l # Seq r # others) # rest)"
  shows "load_val_set w a vg n =
     (if int (length l) \<noteq> n \<or> int (length r) \<noteq> n then Inl Exception
      else Inr (Some (next_batch w vg)))"
  using assms by (simp add: load_val_set_def len_differs_def Let_def)

lemma load_val_set_single_view_mismatch:
  assumes "load_val_ram a" and "\<not> multi_view a"
    and "next_batch w vg = Seq (Seq imgs # rest)" and "int (length imgs) \<noteq> n"
  shows "load_val_set w a vg n = Inl Exception"
  using assms by (simp add: load_val_set_def len_differs_def Let_def)

lemma load_val_set_single_view_channel_first:
  assumes "load_val_ram a" and "\<not> multi_view a"
    and "next_batch w vg = Seq (Seq imgs # rest)"
    and "\<forall>x\<in>set imgs. \<exists>c. x = Seq [c]"
  shows "load_val_set w a vg n \<noteq> Inr v"
proof (cases imgs)
  case Nil
  with assms(1-3) show ?thesis
    by (simp add: load_val_set_def len_differs_def Let_def)
next
  case (Cons x xs)
  with assms(4) obtain c where x: "x = Seq [c]"
    by auto
  show ?thesis
  proof (cases xs)
    case Nil
    with Cons x assms(1-3) show ?thesis
      by (simp add: load_val_set_def len_differs_def Let_def)
  next
    case (Cons y ys)
    with \<open>imgs = x # xs\<close> assms(4) obtain d where y: "y = Seq [d]"
      by auto
    with Cons \<open>imgs = x # xs\<close> x assms(1-3) show ?thesis
      by (simp add: load_val_set_def len_differs_def Let_def)
  qed
qed

text \<open>
  The split behind a run: the training generator flows over the training part of one
  call of \<^verbatim>\<open>train_test_split\<close>, made on the whole list with \<^verbatim>\<open>test_size\<close> the
  argument \<^verbatim>\<open>val_size\<close>, \<^verbatim>\<open>random_state\<close> the seed of the environment, and
  \<^verbatim>\<open>stratify\<close> the labels of the list that is split. What the two parts are is up
  to that library function.
\<close>

lemma run_to_fit_split:
  assumes "run_to_fit w f a = Inr (model, compile, fit)"
  shows "\<exists>seed. getenv_int w ''RANDOM_SEED'' 12345 = Inr seed \<and>
     (let meta_man = DMMetaManager (exam_tsv a) (img_tsv a) f (img_extension a);
          g = create_img_gen w a
      in if multi_view a then
           (let exam_list = get_flatten_exam_list w meta_man;
                (exam_train, exam_val) =
                  train_test_split1 w exam_list (val_size a) seed
                    (exam_labs w meta_man exam_list)
            in \<exists>train_opts. generator fit = flow_from_exam_list g exam_train train_opts)
         else
           (let (img_list, lab_list) = get_flatten_img_list w meta_man;
                (img_train, img_val, lab_train, lab_val) =
                  train_test_split2 w img_list lab_list (val_size a) seed lab_list
            in \<exists>train_opts.
                 generator fit = flow_from_img_list g img_train lab_train train_opts))"
proof -
  from run_to_fit_Inr [OF assms] obtain seed nw gc sp vs tg vg vset m0
    where seed: "getenv_int w ''RANDOM_SEED'' 12345 = Inr seed"
      and sp: "split_data w f a seed = (sp, vs)"
      and fl: "create_flows a (create_img_gen w a) sp vs seed = Inr (tg, vg)"
      and tr: "training_call a nw gc vs tg vg vset m0 = Inr (model, compile, fit)"
    by blast
  from training_call_Inr [OF tr] have gen: "generator fit = tg"
    by blast
  from fl have "if multi_view a
      then \<exists>tr va topts. sp = ExamSplit tr va \<and> tg = flow_from_exam_list (create_img_gen w a) tr topts
      else \<exists>tr va ltr lva topts. sp = ImgSplit tr va ltr lva \<and>
             tg = flow_from_img_list (create_img_gen w a) tr ltr topts"
    unfolding create_flows_def Let_def
    by (elim ebind_InrE) (auto split: if_splits split.splits)
  with sp gen seed show ?thesis
    by (auto simp: split_data_def Let_def split: prod.splits if_splits)
qed

text \<open>Evaluation of the concrete inputs.\<close>

lemmas run_defs = run_def run_to_fit_def fit_and_report_def prepare_def training_call_def
  getenv_int_def split_data_def create_img_gen_def create_flows_def load_val_set_def
  len_differs_def create_model_def net_method_def replicate_model_def local_var_def
  list_getitem_def Let_def

lemma demo_report:
  "training_report demo_history =
     Inr \<lparr>epoch = 2, best_val_loss = 0.5, best_val_sensitivity = 0.2,
          best_val_specificity = 0.8\<rparr>"
  by (simp add: training_report_def demo_history_def dict_getitem_def py_min_def
      np_where_eq_def list_getitem_def)

section \<open>The claims\<close>

text \<open>
  C1 (the code departs from the claim). The claim: with \<^verbatim>\<open>load_val_ram\<close> true, the
  run raises the bare Exception if and only if the preloaded validation batch does not
  have the expected count, and goes on to build the model when it has. The code at
  lines 123 to 127 reaches the \<^verbatim>\<open>elif\<close> in single-view mode whenever the batch has
  the expected count. Here the run is in single-view mode, \<^verbatim>\<open>val_size_\<close> is 2, the
  batch holds exactly 2 images of shape (1, 2, 2), and the run raises Exception.
\<close>

theorem C1_raises_on_matching_batch:
  "load_val_ram (default_opts\<lparr>load_val_ram := True\<rparr>) \<and>
   \<not> multi_view (default_opts\<lparr>load_val_ram := True\<rparr>) \<and>
   snd (split_data demo_world ''/data'' (default_opts\<lparr>load_val_ram := True\<rparr>) 12345) = 2 \<and>
   ebind (py_getitem demo_batch 0) py_len = Inr 2 \<and>
   run demo_world ''/data'' (default_opts\<lparr>load_val_ram := True\<rparr>) = Inl Exception"
  by (simp add: run_defs demo_world_def default_opts_def demo_batch_def image_1x2x2_def)

text \<open>
  C2. In every run that reaches the training loop, \<^verbatim>\<open>nb_val_samples\<close> of the call
  of \<^verbatim>\<open>fit_generator\<close> is twice the number of validation exams returned by the
  split when \<^verbatim>\<open>multi_view\<close> is true, and the number of validation images returned
  by the split otherwise.
\<close>

theorem C2_nb_val_samples:
  assumes "run_to_fit w f a = Inr (model, compile, fit)"
  shows "\<exists>seed. getenv_int w ''RANDOM_SEED'' 12345 = Inr seed \<and>
     (let meta_man = DMMetaManager (exam_tsv a) (img_tsv a) f (img_extension a)
      in if multi_view a then
           (let exam_list = get_flatten_exam_list w meta_man;
                (exam_train, exam_val) =
                  train_test_split1 w exam_list (val_size a) seed
                    (exam_labs w meta_man exam_list)
            in nb_val_samples fit = 2 * int (length exam_val))
         else
           (let (img_list, lab_list) = get_flatten_img_list w meta_man;
                (img_train, img_val, lab_train, lab_val) =
                  train_test_split2 w img_list lab_list (val_size a) seed lab_list
            in nb_val_samples fit = int (length img_val)))"
proof -
  from run_to_fit_Inr [OF assms] obtain seed nw g sp vs tg vg vset m0
    where seed: "getenv_int w ''RANDOM_SEED'' 12345 = Inr seed"
      and sp: "split_data w f a seed = (sp, vs)"
      and tr: "training_call a nw g vs tg vg vset m0 = Inr (model, compile, fit)"
    by blast
  from training_call_Inr [OF tr] have "nb_val_samples fit = vs"
    by blast
  with sp have "nb_val_samples fit = snd (split_data w f a seed)"
    by simp
  then show ?thesis
    using seed by (auto simp: split_data_def Let_def split: prod.splits)
qed

theorem C2_witness:
  "(\<exists>model compile fit.
      run_to_fit demo_world ''/data'' (default_opts\<lparr>multi_view := True\<rparr>) =
        Inr (model, compile, fit) \<and>
      nb_val_samples fit = 4) \<and>
   (\<exists>model compile fit.
      run_to_fit demo_world ''/data'' default_opts = Inr (model, compile, fit) \<and>
      nb_val_samples fit = 2)"
proof -
  obtain model compile fit
    where fit: "run_to_fit demo_world ''/data'' (default_opts\<lparr>multi_view := True\<rparr>) =
      Inr (model, compile, fit)"
    by (simp add: run_defs demo_world_def default_opts_def)
  from C2_nb_val_samples [OF fit] have "nb_val_samples fit = 4"
    by (simp add: demo_world_def default_opts_def getenv_int_def)
  with fit have multi: "\<exists>model compile fit.
      run_to_fit demo_world ''/data'' (default_opts\<lparr>multi_view := True\<rparr>) =
        Inr (model, compile, fit) \<and>
      nb_val_samples fit = 4"
    by blast
  obtain model' compile' fit'
    where fit': "run_to_fit demo_world ''/data'' default_opts = Inr (model', compile', fit')"
    by (simp add: run_defs demo_world_def default_opts_def)
  from C2_nb_val_samples [OF fit'] have "nb_val_samples fit' = 2"
    by (simp add: demo_world_def default_opts_def getenv_int_def)
  with fit' multi show ?thesis
    by blast
qed





text \<open>
  C5. In every completed run, the final model is saved, to the path \<^verbatim>\<open>final_model\<close>,
  if and only if \<^verbatim>\<open>final_model\<close> is not the string NOSAVE. In every run that reaches
  the training loop, the third callback is the AUC checkpoint on the path
  \<^verbatim>\<open>best_model\<close>, whatever the value of \<^verbatim>\<open>final_model\<close>.
\<close>

theorem C5_final_model_save:
  "(\<forall>out. run w f a = Inr out \<longrightarrow>
      (saved out = Some (final_model a) \<longleftrightarrow> final_model a \<noteq> ''NOSAVE'') \<and>
      (saved out = None \<longleftrightarrow> final_model a = ''NOSAVE'')) \<and>
   (\<forall>model compile fit. run_to_fit w f a = Inr (model, compile, fit) \<longrightarrow>
      (\<exists>reduce_lr early_stopping data bs n.
         callbacks fit =
           [reduce_lr, early_stopping, DMAucModelCheckpoint (best_model a) data bs n]))"
proof (intro conjI allI impI)
  fix out assume "run w f a = Inr out"
  from run_Inr [OF this]
  have sv: "saved out = (if final_model a \<noteq> ''NOSAVE'' then Some (final_model a) else None)"
    by blast
  from sv show "saved out = Some (final_model a) \<longleftrightarrow> final_model a \<noteq> ''NOSAVE''"
    by (simp split: if_splits)
  from sv show "saved out = None \<longleftrightarrow> final_model a = ''NOSAVE''"
    by (simp split: if_splits)
next
  fix model compile fit assume "run_to_fit w f a = Inr (model, compile, fit)"
  from run_to_fit_Inr [OF this] obtain nw g vs tg vg vset m0
    where tr: "training_call a nw g vs tg vg vset m0 = Inr (model, compile, fit)"
    by blast
  from training_call_Inr [OF tr]
  show "\<exists>reduce_lr early_stopping data bs n.
         callbacks fit =
           [reduce_lr, early_stopping, DMAucModelCheckpoint (best_model a) data bs n]"
    by blast
qed

theorem C5_witness:
  "\<exists>out. run demo_world ''/data'' (default_opts\<lparr>final_model := ''final.h5''\<rparr>) = Inr out \<and>
     saved out = Some ''final.h5'' \<and>
     (\<exists>reduce_lr early_stopping data bs n.
        callbacks (fit_call out) =
          [reduce_lr, early_stopping,
           DMAucModelCheckpoint ''./modelState/dm_resnet_best_model.h5'' data bs n])"
proof -
  obtain out
    where out: "run demo_world ''/data'' (default_opts\<lparr>final_model := ''final.h5''\<rparr>) = Inr out"
    by (simp add: run_defs demo_world_def default_opts_def demo_report)
  from run_Inr [OF out]
  have fit: "run_to_fit demo_world ''/data'' (default_opts\<lparr>final_model := ''final.h5''\<rparr>) =
      Inr (compiled out, compile_call out, fit_call out)"
    by blast
  from C5_final_model_save [of demo_world "''/data''" "default_opts\<lparr>final_model := ''final.h5''\<rparr>"]
    out fit
  show ?thesis
    by (simp add: default_opts_def)
qed

text \<open>
  C6. In every run that reaches the training loop, the class-weight dictionary passed to
  it has exactly the keys 0 and 1, with 0 mapped to 1.0 and 1 mapped to
  \<^verbatim>\<open>pos_cls_weight\<close>.
\<close>

theorem C6_class_weight:
  assumes "run_to_fit w f a = Inr (model, compile, fit)"
  shows "dom (class_weight fit) = {0, 1} \<and>
     class_weight fit 0 = Some 1 \<and>
     class_weight fit 1 = Some (pos_cls_weight a)"
proof -
  from run_to_fit_Inr [OF assms] obtain nw g vs tg vg vset m0
    where tr: "training_call a nw g vs tg vg vset m0 = Inr (model, compile, fit)"
    by blast
  from training_call_Inr [OF tr]
  have "class_weight fit = [0 \<mapsto> 1, 1 \<mapsto> pos_cls_weight a]"
    by blast
  then show ?thesis
    by auto
qed

theorem C6_witness:
  "\<exists>model compile fit.
     run_to_fit demo_world ''/data'' (default_opts\<lparr>pos_cls_weight := 2.5\<rparr>) =
       Inr (model, compile, fit) \<and>
     dom (class_weight fit) = {0, 1} \<and>
     class_weight fit 0 = Some 1 \<and>
     class_weight fit 1 = Some 2.5"
proof -
  obtain model compile fit
    where fit: "run_to_fit demo_world ''/data'' (default_opts\<lparr>pos_cls_weight := 2.5\<rparr>) =
      Inr (model, compile, fit)"
    by (simp add: run_defs demo_world_def default_opts_def)
  from C6_class_weight [OF fit] fit show ?thesis
    by (simp add: default_opts_def)
qed

text \<open>
  C8. With \<^verbatim>\<open>do_featurewise_norm\<close> true the generator has featurewise centering and
  featurewise standard-deviation normalisation switched on and its mean and std set to
  \<^verbatim>\<open>featurewise_mean\<close> and \<^verbatim>\<open>featurewise_std\<close>, the samplewise attributes being
  those of the constructor; with it false the generator has samplewise centering and
  samplewise standard-deviation normalisation switched on, and its mean, its std and its
  featurewise attributes are those of the constructor. The training generator of a run
  is a flow of this generator, and so is a validation generator passed to the loop.
\<close>

theorem C8_normalization:
  "(let g0 = DMImageDataGenerator w True True; g = create_img_gen w a
    in (do_featurewise_norm a \<longrightarrow>
          featurewise_center g \<and> featurewise_std_normalization g \<and>
          mean g = Some (featurewise_mean a) \<and> std g = Some (featurewise_std a) \<and>
          samplewise_center g = samplewise_center g0 \<and>
          samplewise_std_normalization g = samplewise_std_normalization g0) \<and>
       (\<not> do_featurewise_norm a \<longrightarrow>
          samplewise_center g \<and> samplewise_std_normalization g \<and>
          mean g = mean g0 \<and> std g = std g0 \<and>
          featurewise_center g = featurewise_center g0 \<and>
          featurewise_std_normalization g = featurewise_std_normalization g0) \<and>
       (\<forall>f model compile fit. run_to_fit w f a = Inr (model, compile, fit) \<longrightarrow>
          flow_img_gen (generator fit) = g \<and>
          (\<forall>vg. validation_data fit = ValGen vg \<longrightarrow> flow_img_gen vg = g)))"
proof -
  have "flow_img_gen (generator fit) = create_img_gen w a \<and>
      (\<forall>vg. validation_data fit = ValGen vg \<longrightarrow> flow_img_gen vg = create_img_gen w a)"
    if "run_to_fit w f a = Inr (model, compile, fit)" for f model compile fit
  proof -
    from run_to_fit_Inr [OF that] obtain seed nw gc sp vs tg vg vset m0
      where fl: "create_flows a (create_img_gen w a) sp vs seed = Inr (tg, vg)"
        and ld: "load_val_set w a vg vs = Inr vset"
        and tr: "training_call a nw gc vs tg vg vset m0 = Inr (model, compile, fit)"
      by blast
    from training_call_Inr [OF tr] obtain vd where "generator fit = tg"
      and "validation_data fit = vd"
      and "if load_val_ram a then \<exists>batch. vd = ValSet batch else vd = ValGen vg"
      by blast
    with create_flows_gen [OF fl] show ?thesis
      by (auto split: if_splits)
  qed
  then show ?thesis
    by (simp add: create_img_gen_def Let_def)
qed

theorem C8_witness:
  "mean (create_img_gen demo_world default_opts) = Some 398.5 \<and>
   std (create_img_gen demo_world default_opts) = Some 627.8 \<and>
   featurewise_center (create_img_gen demo_world default_opts) \<and>
   \<not> samplewise_center (create_img_gen demo_world default_opts) \<and>
   mean (create_img_gen demo_world (default_opts\<lparr>do_featurewise_norm := False\<rparr>)) = None \<and>
   std (create_img_gen demo_world (default_opts\<lparr>do_featurewise_norm := False\<rparr>)) = None \<and>
   samplewise_center (create_img_gen demo_world (default_opts\<lparr>do_featurewise_norm := False\<rparr>)) \<and>
   \<not> featurewise_center (create_img_gen demo_world (default_opts\<lparr>do_featurewise_norm := False\<rparr>)) \<and>
   (\<exists>model compile fit vg.
      run_to_fit demo_world ''/data'' default_opts = Inr (model, compile, fit) \<and>
      validation_data fit = ValGen vg \<and>
      mean (flow_img_gen (generator fit)) = Some 398.5 \<and>
      mean (flow_img_gen vg) = Some 398.5)"
proof -
  obtain model compile fit vg
    where fit: "run_to_fit demo_world ''/data'' default_opts = Inr (model, compile, fit)"
      and vg: "validation_data fit = ValGen vg"
    by (simp add: run_defs demo_world_def default_opts_def)
  from C8_normalization [of demo_world default_opts] fit vg
  have "mean (flow_img_gen (generator fit)) = Some 398.5"
    and "mean (flow_img_gen vg) = Some 398.5"
    by (simp_all add: Let_def default_opts_def)
  with fit vg have "\<exists>model compile fit vg.
      run_to_fit demo_world ''/data'' default_opts = Inr (model, compile, fit) \<and>
      validation_data fit = ValGen vg \<and>
      mean (flow_img_gen (generator fit)) = Some 398.5 \<and>
      mean (flow_img_gen vg) = Some 398.5"
    by blast
  with C8_normalization [of demo_world default_opts]
    C8_normalization [of demo_world "default_opts\<lparr>do_featurewise_norm := False\<rparr>"]
  show ?thesis
    by (simp add: Let_def demo_world_def default_opts_def)
qed

text \<open>
  C9. With \<^verbatim>\<open>resume_from\<close> None, a model is constructed only if \<^verbatim>\<open>net\<close> is one
  of the nine recognized names (and is constructed then, given an image size of two
  entries). For any other name the variable \<^verbatim>\<open>model\<close> stays unassigned: a run that
  gets through the preparation of the data raises UnboundLocalError at the first use of
  the variable, and no run reaches the training loop or completes.
\<close>

theorem C9_net_dispatch:
  assumes "resume_from a = None"
  shows "((\<exists>m. create_model a = Inr (Some m)) \<longrightarrow> net a \<in> set recognized_nets) \<and>
     (net a \<in> set recognized_nets \<and> 2 \<le> length (img_size a) \<longrightarrow>
        (\<exists>m. create_model a = Inr (Some m))) \<and>
     (net a \<notin> set recognized_nets \<longrightarrow>
        create_model a = Inr None \<and>
        (\<forall>p. prepare w f a = Inr p \<longrightarrow>
           run_to_fit w f a = Inl UnboundLocalError \<and> run w f a = Inl UnboundLocalError) \<and>
        (\<forall>r. run_to_fit w f a \<noteq> Inr r) \<and>
        (\<forall>out. run w f a \<noteq> Inr out))"
proof (intro conjI impI)
  assume "\<exists>m. create_model a = Inr (Some m)"
  then have "\<exists>m. net_method (net a) = Some m"
    using assms by (auto simp: create_model_def Let_def split: option.splits)
  then show "net a \<in> set recognized_nets"
    by (simp only: net_method_Some_iff)
next
  assume "net a \<in> set recognized_nets \<and> 2 \<le> length (img_size a)"
  then obtain m where m: "net_method (net a) = Some m" and len: "2 \<le> length (img_size a)"
    using net_method_Some_iff [of "net a"] by blast
  from len have "0 < length (img_size a)" and "1 < length (img_size a)"
    by linarith+
  with m show "\<exists>m. create_model a = Inr (Some m)"
    using assms by (simp add: create_model_def list_getitem_def)
next
  assume no: "net a \<notin> set recognized_nets"
  then have "net_method (net a) = None"
    using net_method_Some_iff [of "net a"] by (cases "net_method (net a)") auto
  then show none: "create_model a = Inr None"
    using assms by (simp add: create_model_def)
  have unbound: "training_call a nw g vs tg vg vset None = Inl UnboundLocalError"
    for nw g vs and tg vg :: "('e, 'i) flow" and vset
    by (simp add: training_call_def replicate_model_def local_var_def)
  show fails: "\<forall>p. prepare w f a = Inr p \<longrightarrow>
      run_to_fit w f a = Inl UnboundLocalError \<and> run w f a = Inl UnboundLocalError"
    by (auto simp: run_def run_to_fit_def none unbound)
  show nofit: "\<forall>r. run_to_fit w f a \<noteq> Inr r"
  proof (intro allI notI)
    fix r assume "run_to_fit w f a = Inr r"
    then obtain p where "prepare w f a = Inr p"
      unfolding run_to_fit_def by (elim ebind_InrE)
    with fails \<open>run_to_fit w f a = Inr r\<close> show False
      by simp
  qed
  show "\<forall>out. run w f a \<noteq> Inr out"
  proof (intro allI notI)
    fix out assume "run w f a = Inr out"
    from run_Inr [OF this] nofit show False
      by blast
  qed
qed

theorem C9_witness:
  "resume_from (default_opts\<lparr>net := ''vgg16''\<rparr>) = None \<and>
   ''vgg16'' \<notin> set recognized_nets \<and>
   create_model (default_opts\<lparr>net := ''vgg16''\<rparr>) = Inr None \<and>
   run demo_world ''/data'' (default_opts\<lparr>net := ''vgg16''\<rparr>) = Inl UnboundLocalError \<and>
   ''resnet50'' \<in> set recognized_nets \<and>
   (\<exists>m. create_model default_opts = Inr (Some m))"
proof -
  have r: "resume_from (default_opts\<lparr>net := ''vgg16''\<rparr>) = None"
    by (simp add: default_opts_def)
  have v: "''vgg16'' \<notin> set recognized_nets"
    by (simp add: recognized_nets_def)
  then have n: "net (default_opts\<lparr>net := ''vgg16''\<rparr>) \<notin> set recognized_nets"
    by simp
  have "\<exists>p. prepare demo_world ''/data'' (default_opts\<lparr>net := ''vgg16''\<rparr>) = Inr p"
    by (simp add: prepare_def getenv_int_def split_data_def create_img_gen_def
        create_flows_def load_val_set_def list_getitem_def Let_def
        demo_world_def default_opts_def)
  with C9_net_dispatch [OF r, of demo_world "''/data''"] n
  have bad: "create_model (default_opts\<lparr>net := ''vgg16''\<rparr>) = Inr None"
    "run demo_world ''/data'' (default_opts\<lparr>net := ''vgg16''\<rparr>) = Inl UnboundLocalError"
    by blast+
  have r': "resume_from default_opts = None"
    by (simp add: default_opts_def)
  have k: "''resnet50'' \<in> set recognized_nets"
    by (simp add: recognized_nets_def)
  then have "net default_opts \<in> set recognized_nets \<and> 2 \<le> length (img_size default_opts)"
    by (simp add: default_opts_def)
  with C9_net_dispatch [OF r', of demo_world "''/data''"]
  have "\<exists>m. create_model default_opts = Inr (Some m)"
    by blast
  with r v bad k show ?thesis
    by blast
qed



end
